theory Spec2Isabelle
  imports Main "HOL-Library.Multiset" "HOL-Library.AList"
begin

section \<open>The manager service of CallAudit-backend\<close>

text \<open>
  A shallow embedding of \<^verbatim>\<open>src/features/manager/services.py\<close> (class
  \<^verbatim>\<open>ManagerService\<close>) and of the \<^verbatim>\<open>Manager\<close> row of \<^verbatim>\<open>src/models.py\<close>.

  Every method of the service is a program over an explicit \<open>world\<close>: the log of the
  repository methods invoked so far, the cookies set on the FastAPI response object, and
  the entropy the \<^verbatim>\<open>random\<close> module still has to hand out. A program returns
  \<open>Inl e\<close> when the Python raises \<open>e\<close> and \<open>Inr v\<close> when it returns \<open>v\<close>.
\<close>

subsection \<open>Exceptions, collaborators' outcomes and the world\<close>

text \<open>
  The exceptions of the module. \<open>HTTPException status detail\<close> is FastAPI's; the
  others are the built-in exceptions the methods' bodies can raise, and
  \<open>CollaboratorError\<close> stands for any exception, other than an \<open>HTTPException\<close>, that
  escapes a collaborator (repository, token utility, password context).
\<close>

datatype exn =
    HTTPException nat string
  | ValueError string
  | KeyError string
  | AttributeError string
  | IndexError string
  | CollaboratorError string

text \<open>The status codes of \<^verbatim>\<open>fastapi.status\<close> that the service uses.\<close>

definition HTTP_400_BAD_REQUEST :: nat where "HTTP_400_BAD_REQUEST = 400"
definition HTTP_401_UNAUTHORIZED :: nat where "HTTP_401_UNAUTHORIZED = 401"
definition HTTP_403_FORBIDDEN :: nat where "HTTP_403_FORBIDDEN = 403"
definition HTTP_404_NOT_FOUND :: nat where "HTTP_404_NOT_FOUND = 404"
definition HTTP_500_INTERNAL_SERVER_ERROR :: nat where "HTTP_500_INTERNAL_SERVER_ERROR = 500"

text \<open>
  What a call of a collaborator's method does: it raises (anything but an
  \<open>HTTPException\<close>) or it returns a value. Python's \<^verbatim>\<open>None\<close> is \<open>None\<close> of an
  option type in the returned value.
\<close>

datatype 'a outcome = Raised string | Returned 'a

text \<open>The repository methods the modelled service methods invoke, with their argument.\<close>

datatype repo_call =
    Get_manager string
  | Get_all_leads string
  | Get_all_audit string
  | Get_all_flagged_call string
  | Get_all_latest_flagged_audit string
  | Get_last_7_days_audited_calls string
  | Get_auditor_and_audited_call_counts string
  | Get_auditors string
  | Get_counsellor_data string
  | Get_counsellors string
  | Create_auditor "(string \<times> string) list"
  | Create_counsellor "(string \<times> string) list"

text \<open>One \<^verbatim>\<open>response.set_cookie(key=, value=, httponly=, secure=, samesite=, max_age=)\<close>.\<close>

record cookie =
  key :: string
  val :: string
  httponly :: bool
  secure :: bool
  samesite :: string
  max_age :: nat

record world =
  repo_calls :: "repo_call list"
  cookies :: "cookie list"
  entropy :: "nat \<Rightarrow> nat"

type_synonym 'a prog = "world \<Rightarrow> (exn + 'a) \<times> world"

definition ret :: "'a \<Rightarrow> 'a prog" where
  "ret v w = (Inr v, w)"

definition raise :: "exn \<Rightarrow> 'a prog" where
  "raise e w = (Inl e, w)"

text \<open>Sequencing: an exception of the first statement skips the rest.\<close>

definition and_then :: "'a prog \<Rightarrow> ('a \<Rightarrow> 'b prog) \<Rightarrow> 'b prog" where
  "and_then m f w = (case m w of (Inl e, w') \<Rightarrow> (Inl e, w') | (Inr v, w') \<Rightarrow> f v w')"

text \<open>
  The wrapper every public method has:
  \<^verbatim>\<open>
  try: body
  except HTTPException as e: raise e
  except Exception as e: raise HTTPException(status_code=500, detail=detail)
  \<close>
\<close>

definition try_except :: "string \<Rightarrow> 'a prog \<Rightarrow> 'a prog" where
  "try_except detail body w =
     (case body w of
        (Inl (HTTPException s d), w') \<Rightarrow> (Inl (HTTPException s d), w')
      | (Inl _, w') \<Rightarrow> (Inl (HTTPException HTTP_500_INTERNAL_SERVER_ERROR detail), w')
      | (Inr v, w') \<Rightarrow> (Inr v, w'))"

text \<open>A call of a collaborator that is not the repository: nothing is logged.\<close>

definition call :: "'a outcome \<Rightarrow> 'a prog" where
  "call r w = (case r of Raised msg \<Rightarrow> (Inl (CollaboratorError msg), w) | Returned v \<Rightarrow> (Inr v, w))"

text \<open>A call of a repository method: the invocation is logged, whatever it does.\<close>

definition repo_invoke :: "repo_call \<Rightarrow> 'a outcome \<Rightarrow> 'a prog" where
  "repo_invoke c r w = call r (w\<lparr>repo_calls := repo_calls w @ [c]\<rparr>)"

subsection \<open>The \<^verbatim>\<open>random\<close> and \<^verbatim>\<open>string\<close> modules\<close>

text \<open>
  \<^verbatim>\<open>random\<close> is the standard library's; its generator is modelled as a source of
  natural numbers, consumed one per draw. \<open>randbelow n\<close> is \<^verbatim>\<open>_randbelow(n)\<close>, an
  index below \<open>n\<close>.
\<close>

definition randbelow :: "nat \<Rightarrow> nat prog" where
  "randbelow n w = (Inr (entropy w 0 mod n), w\<lparr>entropy := \<lambda>k. entropy w (Suc k)\<rparr>)"

text \<open>\<^verbatim>\<open>random.choice(seq)\<close>: \<^verbatim>\<open>seq[self._randbelow(len(seq))]\<close>, an IndexError on an empty sequence.\<close>

definition choice :: "'a list \<Rightarrow> 'a prog" where
  "choice seq =
     (if seq = [] then raise (IndexError ''Cannot choose from an empty sequence'')
      else and_then (randbelow (length seq)) (\<lambda>i. ret (seq ! i)))"

text \<open>\<^verbatim>\<open>random.choices(population, k=k)\<close>: \<open>k\<close> independent draws, in order.\<close>

fun choices :: "'a list \<Rightarrow> nat \<Rightarrow> 'a list prog" where
  "choices population 0 = ret []"
| "choices population (Suc k) =
     and_then (choice population) (\<lambda>c.
     and_then (choices population k) (\<lambda>cs. ret (c # cs)))"

text \<open>
  \<^verbatim>\<open>random.shuffle(x)\<close>:
  \<^verbatim>\<open>
  for i in reversed(range(1, len(x))):
      j = randbelow(i + 1)
      x[i], x[j] = x[j], x[i]
  \<close>
  \<open>shuffle_loop i x\<close> runs the iterations \<open>i, i - 1, ..., 1\<close>.
\<close>

fun shuffle_loop :: "nat \<Rightarrow> 'a list \<Rightarrow> 'a list prog" where
  "shuffle_loop 0 x = ret x"
| "shuffle_loop (Suc i) x =
     and_then (randbelow (Suc i + 1)) (\<lambda>j.
     shuffle_loop i (x[Suc i := x ! j, j := x ! Suc i]))"

definition shuffle :: "'a list \<Rightarrow> 'a list prog" where
  "shuffle x = shuffle_loop (length x - 1) x"

definition ascii_lowercase :: string where
  "ascii_lowercase = ''abcdefghijklmnopqrstuvwxyz''"

definition ascii_uppercase :: string where
  "ascii_uppercase = ''ABCDEFGHIJKLMNOPQRSTUVWXYZ''"

definition ascii_letters :: string where
  "ascii_letters = ascii_lowercase @ ascii_uppercase"

definition digits :: string where
  "digits = ''0123456789''"

text \<open>
  \<^verbatim>\<open>string.punctuation\<close>: the 32 ASCII punctuation characters in code point order, with
  the double quote (0x22), the apostrophe (0x27), the backslash (0x5C) and the backtick
  (0x60) written by their code points.
\<close>

definition punctuation :: string where
  "punctuation =
     ''!'' @ [CHR 0x22] @ ''#$%&'' @ [CHR 0x27] @ ''()*+,-./:;<=>?@['' @ [CHR 0x5C] @
     '']^_'' @ [CHR 0x60] @ ''{|}~''"

subsection \<open>\<^verbatim>\<open>ManagerService.__generate_strong_password\<close>\<close>

definition generate_strong_password :: "int \<Rightarrow> string prog" where
  "generate_strong_password len =
     (if len < 4 then
        raise (ValueError
          ''Password length should be at least 4 to include all character types.'')
      else
        and_then (choice ascii_lowercase) (\<lambda>c1.
        and_then (choice ascii_uppercase) (\<lambda>c2.
        and_then (choice digits) (\<lambda>c3.
        and_then (choice punctuation) (\<lambda>c4.
        and_then (choices (ascii_letters @ digits @ punctuation) (nat (len - 4))) (\<lambda>rest.
        and_then (shuffle ([c1, c2, c3, c4] @ rest)) (\<lambda>password.
        ret password)))))))"

subsection \<open>Rows, collaborators and response schemas\<close>

text \<open>The \<^verbatim>\<open>Manager\<close> row of \<^verbatim>\<open>models.py\<close> (the timestamps as seconds).\<close>

record Manager =
  mgr_id :: string
  mgr_name :: string
  mgr_email :: string
  mgr_phone :: "string option"
  mgr_password :: string
  mgr_created_at :: nat
  mgr_updated_at :: nat

text \<open>
  The value a caller passes for the parameter \<^verbatim>\<open>manager\<close>. Python does not enforce the
  annotation \<^verbatim>\<open>manager: Manager\<close>, so the argument is a \<^verbatim>\<open>Manager\<close> instance or any
  other object; of another object only its attribute \<^verbatim>\<open>id\<close> matters (\<open>None\<close> when
  the object has no such attribute).
\<close>

datatype pyobj = Manager_obj Manager | Other_obj "string option"

text \<open>\<^verbatim>\<open>isinstance(manager, Manager)\<close>\<close>

fun isinstance_Manager :: "pyobj \<Rightarrow> bool" where
  "isinstance_Manager (Manager_obj m) = True"
| "isinstance_Manager (Other_obj a) = False"

text \<open>\<^verbatim>\<open>manager.id\<close>\<close>

fun attr_id :: "pyobj \<Rightarrow> string prog" where
  "attr_id (Manager_obj m) = ret (mgr_id m)"
| "attr_id (Other_obj (Some i)) = ret i"
| "attr_id (Other_obj None) = raise (AttributeError ''object has no attribute 'id' '')"

text \<open>
  Modelled from the spec: \<^verbatim>\<open>features.manager.repository.ManagerRepository\<close> is not among
  the sources; section 6 of the specification gives its interface. Each method is what it
  answers to its argument; \<open>'row\<close> is the type of the rows and series it hands back, of
  which the service inspects nothing. The aggregates are dictionaries from names to counts.
\<close>

record 'row ManagerRepository =
  get_manager :: "string \<Rightarrow> Manager option outcome"
  get_all_leads :: "string \<Rightarrow> int option outcome"
  get_all_audit :: "string \<Rightarrow> int option outcome"
  get_all_flagged_call :: "string \<Rightarrow> int option outcome"
  get_all_latest_flagged_audit :: "string \<Rightarrow> 'row list option outcome"
  get_last_7_days_audited_calls :: "string \<Rightarrow> 'row list option outcome"
  get_auditor_and_audited_call_counts :: "string \<Rightarrow> (string \<times> int) list option outcome"
  get_auditors :: "string \<Rightarrow> 'row list option outcome"
  get_counsellor_data :: "string \<Rightarrow> (string \<times> int) list option outcome"
  get_counsellors :: "string \<Rightarrow> 'row list option outcome"
  create_auditor :: "(string \<times> string) list \<Rightarrow> bool outcome"
  create_counsellor :: "(string \<times> string) list \<Rightarrow> bool outcome"

text \<open>
  Modelled from the spec: \<^verbatim>\<open>core.jwt_util\<close> is not among the sources (the token issuer
  of section 6): a token, or \<^verbatim>\<open>None\<close>, for a dictionary of claims.
\<close>

record JwtUtil =
  create_jwt_token :: "(string \<times> string) list \<Rightarrow> string option outcome"
  create_refresh_token :: "(string \<times> string) list \<Rightarrow> string option outcome"

text \<open>
  \<^verbatim>\<open>passlib.context.CryptContext(schemes=["bcrypt"], deprecated="auto")\<close>, the credential
  verifier of section 6: \<^verbatim>\<open>verify(secret, hash)\<close> and \<^verbatim>\<open>hash(secret)\<close>.
\<close>

record CryptContext =
  verify :: "string \<Rightarrow> string \<Rightarrow> bool outcome"
  hash :: "string \<Rightarrow> string outcome"

record 'row ManagerService =
  repo :: "'row ManagerRepository"
  jwt_util :: JwtUtil
  pwd_context :: CryptContext

text \<open>
  Modelled from the spec: the response schemas of \<^verbatim>\<open>features.manager.schemas\<close> and
  \<^verbatim>\<open>features.auditor.schemas\<close> are not among the sources. Their fields are the keyword
  arguments the service constructs them with (section 6 lists the same shapes).
\<close>

record BaseResponse =
  success :: bool
  message :: string

record User =
  user_id :: string
  user_name :: string
  user_email :: string
  user_role :: string

record LoginSchema = BaseResponse +
  user :: User

record 'row ManagerAnalyticsResponse = BaseResponse +
  total_assigned_leads :: int
  total_audited_calls :: int
  flagged_calls :: int
  latest_flagged_audit :: "'row list"
  last_7_days_data :: "'row list"

record 'row AuditorAnalyticsResponse = BaseResponse +
  number_of_auditors :: int
  auditors_total_audited_calls :: int
  auditors :: "'row list"

record 'row CounsellorAnalysisResponse = BaseResponse +
  total_counsellors :: int
  total_calls_made :: int
  counsellors :: "'row list"

record 'row FlaggedAuditsResponse = BaseResponse +
  flagged_audits :: "'row list"

record NewUserCreatedSchema = BaseResponse +
  password :: string

text \<open>\<^verbatim>\<open>d[k]\<close> on a dictionary: a KeyError when the key is absent.\<close>

definition getitem :: "(string \<times> 'v) list \<Rightarrow> string \<Rightarrow> 'v prog" where
  "getitem d k = (case map_of d k of None \<Rightarrow> raise (KeyError k) | Some v \<Rightarrow> ret v)"

text \<open>\<^verbatim>\<open>response.set_cookie(...)\<close>: one more \<^verbatim>\<open>set-cookie\<close> header on the response.\<close>

definition set_cookie :: "cookie \<Rightarrow> unit prog" where
  "set_cookie c w = (Inr (), w\<lparr>cookies := cookies w @ [c]\<rparr>)"

subsection \<open>\<^verbatim>\<open>ManagerService.login_manager\<close>\<close>

definition login_manager :: "'row ManagerService \<Rightarrow> string \<Rightarrow> string \<Rightarrow> LoginSchema prog" where
  "login_manager self email passwd =
     try_except ''Internal server error occurred while manager login''
      (and_then (repo_invoke (Get_manager email) (get_manager (repo self) email)) (\<lambda>manager.
       case manager of
         None \<Rightarrow> raise (HTTPException HTTP_404_NOT_FOUND ''No manager found with given email'')
       | Some manager \<Rightarrow>
       and_then (call (verify (pwd_context self) passwd (mgr_password manager)))
         (\<lambda>is_password_correct.
       if \<not> is_password_correct then
         raise (HTTPException HTTP_401_UNAUTHORIZED ''Password not matched'')
       else
       and_then (call (create_jwt_token (jwt_util self)
           [(''id'', mgr_id manager), (''name'', mgr_name manager),
            (''email'', mgr_email manager), (''role'', ''manager'')])) (\<lambda>token.
       if token = None \<or> token = Some [] then
         raise (HTTPException HTTP_500_INTERNAL_SERVER_ERROR ''Failed to generate JWT token'')
       else
       and_then (call (create_refresh_token (jwt_util self) [(''id'', mgr_id manager)]))
         (\<lambda>refresh_token.
       if refresh_token = None \<or> refresh_token = Some [] then
         raise (HTTPException HTTP_500_INTERNAL_SERVER_ERROR ''Failed to generate refresh token'')
       else
       and_then (set_cookie
          \<lparr>key = ''token'', val = the token, httponly = True, secure = False,
           samesite = ''lax'', max_age = 24 * 60 * 60\<rparr>) (\<lambda>_.
       and_then (set_cookie
          \<lparr>key = ''refresh_token'', val = the refresh_token, httponly = True, secure = True,
           samesite = ''lax'', max_age = 7 * 24 * 60 * 60\<rparr>) (\<lambda>_.
       ret \<lparr>success = True, message = ''Manager logged in succesfully.'',
            user = \<lparr>user_id = mgr_id manager, user_name = mgr_name manager,
                    user_email = mgr_email manager, user_role = ''manager''\<rparr>\<rparr>)))))))"

subsection \<open>The analytics methods\<close>

definition get_manager_analytics ::
  "'row ManagerService \<Rightarrow> pyobj \<Rightarrow> 'row ManagerAnalyticsResponse prog" where
  "get_manager_analytics self manager =
     try_except ''Internal server error while getting manager analysis for manager''
      (if \<not> isinstance_Manager manager then
         raise (HTTPException HTTP_403_FORBIDDEN ''Current user is not authorized as manager'')
       else
       and_then (attr_id manager) (\<lambda>id1.
       and_then (repo_invoke (Get_all_leads id1) (get_all_leads (repo self) id1)) (\<lambda>leads.
       and_then (attr_id manager) (\<lambda>id2.
       and_then (repo_invoke (Get_all_audit id2) (get_all_audit (repo self) id2)) (\<lambda>audits.
       and_then (attr_id manager) (\<lambda>id3.
       and_then (repo_invoke (Get_all_flagged_call id3) (get_all_flagged_call (repo self) id3))
         (\<lambda>flagged.
       and_then (attr_id manager) (\<lambda>id4.
       and_then (repo_invoke (Get_all_latest_flagged_audit id4)
                   (get_all_latest_flagged_audit (repo self) id4)) (\<lambda>latest.
       and_then (attr_id manager) (\<lambda>id5.
       and_then (repo_invoke (Get_last_7_days_audited_calls id5)
                   (get_last_7_days_audited_calls (repo self) id5)) (\<lambda>last7.
       case (leads, audits, flagged, latest, last7) of
         (Some l, Some a, Some f, Some la, Some d) \<Rightarrow>
           ret \<lparr>success = True, message = ''Succesfully analyzed audits for manager'',
                total_assigned_leads = l, total_audited_calls = a, flagged_calls = f,
                latest_flagged_audit = la, last_7_days_data = d\<rparr>
       | _ \<Rightarrow>
           raise (HTTPException HTTP_500_INTERNAL_SERVER_ERROR
                    ''Internal server error while fetching data from database'')
       )))))))))))"

definition get_auditors_analytics ::
  "'row ManagerService \<Rightarrow> pyobj \<Rightarrow> 'row AuditorAnalyticsResponse prog" where
  "get_auditors_analytics self manager =
     try_except ''Internal server error while getting audit analysis.''
      (and_then (attr_id manager) (\<lambda>id1.
       and_then (repo_invoke (Get_auditor_and_audited_call_counts id1)
                   (get_auditor_and_audited_call_counts (repo self) id1)) (\<lambda>auditors_data.
       and_then (attr_id manager) (\<lambda>id2.
       and_then (repo_invoke (Get_auditors id2) (get_auditors (repo self) id2)) (\<lambda>auditors_rows.
       case (auditors_data, auditors_rows) of
         (Some (d # ds), Some (a # as)) \<Rightarrow>
           and_then (getitem (d # ds) ''number_of_auditors'') (\<lambda>n.
           and_then (getitem (d # ds) ''total_audited_calls'') (\<lambda>t.
           ret \<lparr>success = True, message = ''Succesfully got the auditors data under manager'',
                number_of_auditors = n, auditors_total_audited_calls = t,
                auditors = a # as\<rparr>))
       | _ \<Rightarrow>
           raise (HTTPException HTTP_500_INTERNAL_SERVER_ERROR
                    ''Internal server error occurred while  getting auditors data''))))))"

definition get_counsellor_analysis ::
  "'row ManagerService \<Rightarrow> pyobj \<Rightarrow> 'row CounsellorAnalysisResponse prog" where
  "get_counsellor_analysis self manager =
     try_except ''Internal server error while getting counsellor analysis.''
      (and_then (attr_id manager) (\<lambda>id1.
       and_then (repo_invoke (Get_counsellor_data id1) (get_counsellor_data (repo self) id1))
         (\<lambda>counsellor_data.
       and_then (attr_id manager) (\<lambda>id2.
       and_then (repo_invoke (Get_counsellors id2) (get_counsellors (repo self) id2))
         (\<lambda>counsellor_rows.
       case (counsellor_rows, counsellor_data) of
         (Some (c # cs), Some (d # ds)) \<Rightarrow>
           and_then (getitem (d # ds) ''total_counsellors'') (\<lambda>n.
           and_then (getitem (d # ds) ''total_counsellors'') (\<lambda>t.
           ret \<lparr>success = True, message = ''Succesfully retrieved counsellors data'',
                total_counsellors = n, total_calls_made = t, counsellors = c # cs\<rparr>))
       | _ \<Rightarrow>
           raise (HTTPException HTTP_500_INTERNAL_SERVER_ERROR
                    ''Internal sever error occurred while fetching counsellor data''))))))"

definition get_flagged_audits ::
  "'row ManagerService \<Rightarrow> pyobj \<Rightarrow> 'row FlaggedAuditsResponse prog" where
  "get_flagged_audits self manager =
     try_except ''Internal server error while getting flagged audits.''
      (and_then (attr_id manager) (\<lambda>id1.
       and_then (repo_invoke (Get_all_latest_flagged_audit id1)
                   (get_all_latest_flagged_audit (repo self) id1)) (\<lambda>audits.
       if audits = Some [] then
         ret \<lparr>success = True, message = ''Succesfully retrieved the flagged audits'',
              flagged_audits = []\<rparr>
       else
       case audits of
         None \<Rightarrow>
           raise (HTTPException HTTP_500_INTERNAL_SERVER_ERROR
                    ''Internal server error occurred while fetching flagged audits.'')
       | Some rows \<Rightarrow>
           ret \<lparr>success = True, message = ''Successfully retrieved the flagged audits'',
                flagged_audits = rows\<rparr>)))"

subsection \<open>User provisioning\<close>

definition create_new_auditor ::
  "'row ManagerService \<Rightarrow> (string \<times> string) list \<Rightarrow> NewUserCreatedSchema prog" where
  "create_new_auditor self auditor_data =
     try_except ''Internal server error occurred while creating new auditor''
      (and_then (generate_strong_password 10) (\<lambda>generated.
       and_then (getitem (AList.update ''password'' generated auditor_data) ''password'') (\<lambda>plain.
       and_then (call (hash (pwd_context self) plain)) (\<lambda>hashed.
       and_then (repo_invoke
           (Create_auditor (AList.update ''password'' hashed
              (AList.update ''password'' generated auditor_data)))
           (create_auditor (repo self) (AList.update ''password'' hashed
              (AList.update ''password'' generated auditor_data)))) (\<lambda>is_auditor_created.
       if \<not> is_auditor_created then
         raise (HTTPException HTTP_500_INTERNAL_SERVER_ERROR
                  ''Internal server error occurred while creating new auditor'')
       else
       and_then (getitem (AList.update ''password'' hashed
              (AList.update ''password'' generated auditor_data)) ''password'') (\<lambda>p.
       ret \<lparr>success = True, message = ''Auditor created succesfully'', password = p\<rparr>))))))"

definition create_new_counsellor ::
  "'row ManagerService \<Rightarrow> (string \<times> string) list \<Rightarrow> NewUserCreatedSchema prog" where
  "create_new_counsellor self counsellor_data =
     try_except ''Internal server error occurred while creating new counsellor''
      (and_then (getitem counsellor_data ''auditor_id'') (\<lambda>auditor_id.
       if auditor_id = [] then
         raise (HTTPException HTTP_500_INTERNAL_SERVER_ERROR
                  ''Auditor ID needed for creating counsellor'')
       else
       and_then (repo_invoke (Create_counsellor counsellor_data)
                   (create_counsellor (repo self) counsellor_data)) (\<lambda>is_counsellor_created.
       if \<not> is_counsellor_created then
         raise (HTTPException HTTP_500_INTERNAL_SERVER_ERROR
                  ''Internal server error occurred while creating new counsellor'')
       else
       ret \<lparr>success = True, message = ''Counsellor created succesfully'',
            password = ''Not needed''\<rparr>)))"

definition add_new_user ::
  "'row ManagerService \<Rightarrow> string \<Rightarrow> string \<Rightarrow> string \<Rightarrow> string \<Rightarrow> string \<Rightarrow> string
     \<Rightarrow> NewUserCreatedSchema prog" where
  "add_new_user self role name email phone auditor_id manager_id =
     try_except ''Internal server error occurred while creating new auditor or counsellor''
      (if role = ''auditor'' then
         create_new_auditor self
           [(''email'', email), (''name'', name), (''phone'', phone),
            (''manager_id'', manager_id)]
       else if role = ''counsellor'' then
         create_new_counsellor self
           [(''email'', email), (''name'', name), (''phone'', phone),
            (''manager_id'', manager_id), (''auditor_id'', auditor_id)]
       else
         raise (HTTPException HTTP_400_BAD_REQUEST
                  ''No matching role to add, the role should be auditor or counsellor''))"

subsection \<open>Concrete inputs\<close>

text \<open>
  An entropy source that hands out \<open>n, n + 1, n + 2, ...\<close>, a stored manager, a repository
  that answers for the manager ids \<open>m-1\<close>, \<open>m-2\<close> and others, a token utility and a
  password context whose hash of \<open>p\<close> is \<open>bcrypt:p\<close>.
\<close>

definition counting :: "nat \<Rightarrow> nat \<Rightarrow> nat" where
  "counting n k = k + n"

definition demo_world :: world where
  "demo_world = \<lparr>repo_calls = [], cookies = [], entropy = counting 0\<rparr>"

definition demo_manager :: Manager where
  "demo_manager =
     \<lparr>mgr_id = ''m-1'', mgr_name = ''Asha'', mgr_email = ''asha@example.com'',
      mgr_phone = None, mgr_password = ''bcrypt:s3cret'', mgr_created_at = 0,
      mgr_updated_at = 0\<rparr>"

definition demo_repo :: "string ManagerRepository" where
  "demo_repo =
     \<lparr>get_manager = (\<lambda>e. Returned (if e = ''asha@example.com'' then Some demo_manager else None)),
      get_all_leads = (\<lambda>i. Returned (Some 12)),
      get_all_audit = (\<lambda>i. Returned (Some 7)),
      get_all_flagged_call = (\<lambda>i. Returned (if i = ''m-1'' then Some 2 else None)),
      get_all_latest_flagged_audit =
        (\<lambda>i. Returned (if i = ''m-1'' then Some [''audit-9'']
                        else if i = ''m-2'' then Some [] else None)),
      get_last_7_days_audited_calls = (\<lambda>i. Returned (Some [''mon:3'', ''tue:4''])),
      get_auditor_and_audited_call_counts =
        (\<lambda>i. Returned (Some [(''number_of_auditors'', 3), (''total_audited_calls'', 7)])),
      get_auditors = (\<lambda>i. Returned (Some [''aud-1'', ''aud-2'', ''aud-3''])),
      get_counsellor_data =
        (\<lambda>i. Returned (Some [(''total_counsellors'', 4), (''total_calls_made'', 30)])),
      get_counsellors = (\<lambda>i. Returned (Some [''c-1'', ''c-2'', ''c-3'', ''c-4''])),
      create_auditor = (\<lambda>d. Returned True),
      create_counsellor = (\<lambda>d. Returned True)\<rparr>"

definition demo_service :: "string ManagerService" where
  "demo_service =
     \<lparr>repo = demo_repo,
      jwt_util = \<lparr>create_jwt_token = (\<lambda>c. Returned (Some ''session-jwt'')),
                  create_refresh_token = (\<lambda>c. Returned (Some ''refresh-jwt''))\<rparr>,
      pwd_context = \<lparr>verify = (\<lambda>p h. Returned (h = ''bcrypt:'' @ p)),
                     hash = (\<lambda>p. Returned (''bcrypt:'' @ p))\<rparr>\<rparr>"

section \<open>Properties\<close>

lemmas status_defs =
  HTTP_400_BAD_REQUEST_def HTTP_401_UNAUTHORIZED_def HTTP_403_FORBIDDEN_def
  HTTP_404_NOT_FOUND_def HTTP_500_INTERNAL_SERVER_ERROR_def

lemmas prog_defs =
  ret_def raise_def and_then_def try_except_def call_def repo_invoke_def getitem_def
  set_cookie_def

lemmas demo_defs =
  demo_service_def demo_repo_def demo_manager_def demo_world_def

subsection \<open>The random draws always return\<close>

lemma choice_returns:
  assumes "seq \<noteq> []"
  shows "\<exists>c w'. choice seq w = (Inr c, w') \<and> c \<in> set seq"
  using assms by (simp add: choice_def and_then_def randbelow_def ret_def)

lemma choices_returns:
  assumes "population \<noteq> []"
  shows "\<exists>cs w'. choices population k w = (Inr cs, w') \<and> length cs = k"
proof (induction k arbitrary: w)
  case 0
  show ?case by (simp add: ret_def)
next
  case (Suc k)
  obtain c w1 where c: "choice population w = (Inr c, w1)"
    using choice_returns [OF assms] by blast
  obtain cs w2 where cs: "choices population k w1 = (Inr cs, w2)" "length cs = k"
    using Suc.IH by blast
  show ?case by (simp add: and_then_def c cs ret_def)
qed

lemma shuffle_loop_returns:
  assumes "i < length x"
  shows "\<exists>y w'. shuffle_loop i x w = (Inr y, w') \<and> mset y = mset x"
  using assms
proof (induction i arbitrary: x w)
  case 0
  show ?case by (simp add: ret_def)
next
  case (Suc i)
  define j where "j = entropy w 0 mod (Suc i + 1)"
  define w1 where "w1 = w\<lparr>entropy := \<lambda>k. entropy w (Suc k)\<rparr>"
  have r: "randbelow (Suc (Suc i)) w = (Inr j, w1)"
    by (simp add: randbelow_def j_def w1_def)
  have j: "j < length x" using Suc.prems by (simp add: j_def) (meson Suc_lessI le_less_trans less_Suc_eq_le mod_less_divisor zero_less_Suc not_less_eq)
  define x1 where "x1 = x[Suc i := x ! j, j := x ! Suc i]"
  have m: "mset x1 = mset x"
    unfolding x1_def using Suc.prems j by (simp add: mset_swap)
  have "i < length x1" using Suc.prems by (simp add: x1_def)
  from Suc.IH [OF this, of w1] obtain y w' where
    y: "shuffle_loop i x1 w1 = (Inr y, w')" "mset y = mset x1" by blast
  show ?case
    using y m by (simp add: and_then_def r x1_def)
qed

lemma shuffle_returns:
  "\<exists>y w'. shuffle x w = (Inr y, w') \<and> mset y = mset x"
proof (cases "x = []")
  case True
  then show ?thesis by (simp add: shuffle_def ret_def)
next
  case False
  then have "length x - 1 < length x" by (cases x) simp_all
  from shuffle_loop_returns [OF this] show ?thesis by (simp add: shuffle_def)
qed

lemma alphabet_nonempty:
  "ascii_lowercase \<noteq> []" "ascii_uppercase \<noteq> []" "digits \<noteq> []" "punctuation \<noteq> []"
  "ascii_letters @ digits @ punctuation \<noteq> []"
  by (simp_all add: ascii_lowercase_def ascii_uppercase_def digits_def punctuation_def)

lemma generate_strong_password_returns:
  assumes "4 \<le> len"
  shows "\<exists>pw w'. generate_strong_password len w = (Inr pw, w') \<and> int (length pw) = len \<and>
      (\<exists>c \<in> set pw. c \<in> set ascii_lowercase) \<and>
      (\<exists>c \<in> set pw. c \<in> set ascii_uppercase) \<and>
      (\<exists>c \<in> set pw. c \<in> set digits) \<and>
      (\<exists>c \<in> set pw. c \<in> set punctuation)"
proof -
  note ne = alphabet_nonempty
  obtain c1 w1 where c1: "choice ascii_lowercase w = (Inr c1, w1)" "c1 \<in> set ascii_lowercase"
    using choice_returns [OF ne(1)] by blast
  obtain c2 w2 where c2: "choice ascii_uppercase w1 = (Inr c2, w2)" "c2 \<in> set ascii_uppercase"
    using choice_returns [OF ne(2)] by blast
  obtain c3 w3 where c3: "choice digits w2 = (Inr c3, w3)" "c3 \<in> set digits"
    using choice_returns [OF ne(3)] by blast
  obtain c4 w4 where c4: "choice punctuation w3 = (Inr c4, w4)" "c4 \<in> set punctuation"
    using choice_returns [OF ne(4)] by blast
  obtain rest w5 where
    rest: "choices (ascii_letters @ digits @ punctuation) (nat (len - 4)) w4 = (Inr rest, w5)"
      "length rest = nat (len - 4)"
    using choices_returns [OF ne(5)] by blast
  obtain pw w6 where pw: "shuffle ([c1, c2, c3, c4] @ rest) w5 = (Inr pw, w6)"
      "mset pw = mset ([c1, c2, c3, c4] @ rest)"
    using shuffle_returns by blast
  have run: "generate_strong_password len w = (Inr pw, w6)"
    using assms pw(1)
    by (simp add: generate_strong_password_def and_then_def c1(1) c2(1) c3(1) c4(1) rest(1) ret_def)
  have "length pw = length ([c1, c2, c3, c4] @ rest)"
    using pw(2) by (rule mset_eq_length)
  then have len: "int (length pw) = len" using assms rest(2) by simp
  have "set pw = set ([c1, c2, c3, c4] @ rest)"
    using pw(2) by (rule mset_eq_setD)
  then have mem: "c1 \<in> set pw" "c2 \<in> set pw" "c3 \<in> set pw" "c4 \<in> set pw" by simp_all
  show ?thesis using run len mem c1(2) c2(2) c3(2) c4(2) by blast
qed

subsection \<open>The draws on the counting entropy source\<close>

lemma randbelow_counting:
  "randbelow m \<lparr>repo_calls = r, cookies = c, entropy = counting n\<rparr> =
     (Inr (n mod m), \<lparr>repo_calls = r, cookies = c, entropy = counting (n + 1)\<rparr>)"
  by (simp add: randbelow_def counting_def fun_eq_iff)

lemma choice_counting:
  "seq \<noteq> [] \<Longrightarrow>
   choice seq \<lparr>repo_calls = r, cookies = c, entropy = counting n\<rparr> =
     (Inr (seq ! (n mod length seq)),
      \<lparr>repo_calls = r, cookies = c, entropy = counting (n + 1)\<rparr>)"
  by (simp add: choice_def and_then_def randbelow_counting ret_def)

lemma choices_counting:
  "0 < k \<Longrightarrow> seq \<noteq> [] \<Longrightarrow>
   choices seq k \<lparr>repo_calls = r, cookies = c, entropy = counting n\<rparr> =
     (case choices seq (k - 1) \<lparr>repo_calls = r, cookies = c, entropy = counting (n + 1)\<rparr> of
        (Inl e, w') \<Rightarrow> (Inl e, w')
      | (Inr cs, w') \<Rightarrow> (Inr (seq ! (n mod length seq) # cs), w'))"
  by (cases k) (auto simp: and_then_def choice_counting ret_def split: prod.splits sum.splits)

lemma shuffle_loop_counting:
  "0 < i \<Longrightarrow>
   shuffle_loop i x \<lparr>repo_calls = r, cookies = c, entropy = counting n\<rparr> =
     shuffle_loop (i - 1) (x[i := x ! (n mod Suc i), n mod Suc i := x ! i])
       \<lparr>repo_calls = r, cookies = c, entropy = counting (n + 1)\<rparr>"
  by (cases i) (simp_all add: and_then_def randbelow_counting)

lemma alphabet_lengths:
  "length ascii_lowercase = 26" "length ascii_uppercase = 26" "length ascii_letters = 52"
  "length digits = 10" "length punctuation = 32"
  by (simp_all add: ascii_lowercase_def ascii_uppercase_def ascii_letters_def digits_def
        punctuation_def)

lemma demo_password:
  "generate_strong_password 10 \<lparr>repo_calls = r, cookies = c, entropy = counting 0\<rparr> =
     (Inr ''B$fhjige2a'', \<lparr>repo_calls = r, cookies = c, entropy = counting 19\<rparr>)"
proof -
  have c1: "choice ascii_lowercase \<lparr>repo_calls = r, cookies = c, entropy = counting 0\<rparr> =
      (Inr CHR ''a'', \<lparr>repo_calls = r, cookies = c, entropy = counting 1\<rparr>)"
    by (simp add: choice_counting alphabet_nonempty) (simp add: ascii_lowercase_def)
  have c2: "choice ascii_uppercase \<lparr>repo_calls = r, cookies = c, entropy = counting 1\<rparr> =
      (Inr CHR ''B'', \<lparr>repo_calls = r, cookies = c, entropy = counting 2\<rparr>)"
    by (simp add: choice_counting alphabet_nonempty alphabet_lengths)
       (simp add: ascii_uppercase_def numeral_2_eq_2)
  have c3: "choice digits \<lparr>repo_calls = r, cookies = c, entropy = counting 2\<rparr> =
      (Inr CHR ''2'', \<lparr>repo_calls = r, cookies = c, entropy = counting 3\<rparr>)"
    by (simp add: choice_counting alphabet_nonempty alphabet_lengths)
       (simp add: digits_def)
  have c4: "choice punctuation \<lparr>repo_calls = r, cookies = c, entropy = counting 3\<rparr> =
      (Inr CHR ''$'', \<lparr>repo_calls = r, cookies = c, entropy = counting 4\<rparr>)"
    by (simp add: choice_counting alphabet_nonempty alphabet_lengths)
       (simp add: punctuation_def)
  have rest: "choices (ascii_letters @ digits @ punctuation) 6
        \<lparr>repo_calls = r, cookies = c, entropy = counting 4\<rparr> =
      (Inr ''efghij'', \<lparr>repo_calls = r, cookies = c, entropy = counting 10\<rparr>)"
    by (simp add: choices_counting and_then_def choice_counting ret_def alphabet_nonempty
          alphabet_lengths nth_append)
       (simp add: ascii_letters_def ascii_lowercase_def)
  have len: "length ''aB2$efghij'' - 1 = 9"
    by simp
  have "shuffle_loop 9 ''aB2$efghij'' \<lparr>repo_calls = r, cookies = c, entropy = counting 10\<rparr> =
      (Inr ''B$fhjige2a'', \<lparr>repo_calls = r, cookies = c, entropy = counting 19\<rparr>)"
    by (simp add: shuffle_loop_counting and_then_def randbelow_counting ret_def
          numeral_2_eq_2 [symmetric])
  then have sh: "shuffle ''aB2$efghij'' \<lparr>repo_calls = r, cookies = c, entropy = counting 10\<rparr> =
      (Inr ''B$fhjige2a'', \<lparr>repo_calls = r, cookies = c, entropy = counting 19\<rparr>)"
    by (simp only: shuffle_def len)
  show ?thesis
    using c1 c2 c3 c4 rest sh
    by (simp add: generate_strong_password_def and_then_def ret_def)
qed

subsection \<open>What a successful auditor creation hands back\<close>

text \<open>
  Whatever the collaborators do: when \<^verbatim>\<open>add_new_user\<close> succeeds for the role
  \<^verbatim>\<open>auditor\<close>, the password of its response is what \<^verbatim>\<open>pwd_context.hash\<close> returned for
  the generated password.
\<close>

lemma add_new_user_auditor_password_is_hash:
  assumes "add_new_user self ''auditor'' name email phone auditor_id manager_id w = (Inr r, w')"
  shows "\<exists>plain w1. generate_strong_password 10 w = (Inr plain, w1) \<and>
           hash (pwd_context self) plain = Returned (password r)"
proof -
  obtain plain w1 where gen: "generate_strong_password 10 w = (Inr plain, w1)"
    using generate_strong_password_returns [of 10 w] by auto
  show ?thesis
    using assms
    by (auto simp: add_new_user_def create_new_auditor_def prog_defs gen
          split: outcome.splits if_splits)
qed

subsection \<open>The guard of \<^verbatim>\<open>get_manager_analytics\<close>\<close>

text \<open>
  For every argument that is not a \<^verbatim>\<open>Manager\<close> instance, \<^verbatim>\<open>get_manager_analytics\<close> fails
  with Forbidden (403), and the world is as it was: no repository method has been invoked.
\<close>

lemma get_manager_analytics_forbidden:
  assumes "\<not> isinstance_Manager manager"
  shows "get_manager_analytics self manager w =
           (Inl (HTTPException HTTP_403_FORBIDDEN
                   ''Current user is not authorized as manager''), w)"
  using assms by (simp add: get_manager_analytics_def prog_defs)

section \<open>The claims\<close>

subsection \<open>C1: what \<^verbatim>\<open>add_new_user\<close> returns for an auditor\<close>

text \<open>
  C1 says that the password of the response to a successful \<^verbatim>\<open>add_new_user\<close> with role
  \<^verbatim>\<open>auditor\<close> is the plaintext that the generator produced. The code overwrites
  \<^verbatim>\<open>auditor_data["password"]\<close> with the hash before it builds the response: on the
  concrete inputs, the generator produces \<open>B$fhjige2a\<close>, and the response (as well as the
  row handed to the repository) carries its hash \<open>bcrypt:B$fhjige2a\<close>.
\<close>

theorem add_new_user_auditor_returns_hash:
  "generate_strong_password 10 demo_world =
     (Inr ''B$fhjige2a'', \<lparr>repo_calls = [], cookies = [], entropy = counting 19\<rparr>) \<and>
   add_new_user demo_service ''auditor'' ''Ravi'' ''ravi@example.com'' ''5550100'' [] ''m-1''
       demo_world =
     (Inr \<lparr>success = True, message = ''Auditor created succesfully'',
           password = ''bcrypt:B$fhjige2a''\<rparr>,
      \<lparr>repo_calls =
         [Create_auditor
            [(''email'', ''ravi@example.com''), (''name'', ''Ravi''), (''phone'', ''5550100''),
             (''manager_id'', ''m-1''), (''password'', ''bcrypt:B$fhjige2a'')]],
       cookies = [], entropy = counting 19\<rparr>)"
  by (simp add: add_new_user_def create_new_auditor_def demo_world_def demo_password
        demo_service_def demo_repo_def prog_defs)

subsection \<open>C2: a caller that is not a Manager\<close>

text \<open>
  C2 says that each of the three analytics operations, given an argument that is not a
  \<^verbatim>\<open>Manager\<close> instance, fails with Forbidden or Unauthorized before it invokes any
  repository method. \<^verbatim>\<open>get_manager_analytics\<close> does (\<open>get_manager_analytics_forbidden\<close>),
  as \<^verbatim>\<open>unflag_flagged_audit\<close> does for the same parameter; \<^verbatim>\<open>get_auditors_analytics\<close> and
  \<^verbatim>\<open>get_counsellor_analysis\<close> lack the \<^verbatim>\<open>isinstance\<close> test. On the concrete inputs,
  \<^verbatim>\<open>get_auditors_analytics\<close>, called with an object that is not a \<^verbatim>\<open>Manager\<close> and whose
  \<^verbatim>\<open>id\<close> is \<open>aud-1\<close>, invokes two repository methods with that id and succeeds.
\<close>

theorem auditors_analytics_accepts_non_manager:
  "\<not> isinstance_Manager (Other_obj (Some ''aud-1'')) \<and>
   get_auditors_analytics demo_service (Other_obj (Some ''aud-1'')) demo_world =
     (Inr \<lparr>success = True, message = ''Succesfully got the auditors data under manager'',
           number_of_auditors = 3, auditors_total_audited_calls = 7,
           auditors = [''aud-1'', ''aud-2'', ''aud-3'']\<rparr>,
      \<lparr>repo_calls = [Get_auditor_and_audited_call_counts ''aud-1'', Get_auditors ''aud-1''],
       cookies = [], entropy = counting 0\<rparr>)"
  by (simp add: get_auditors_analytics_def demo_defs prog_defs)

text \<open>
  The same defect in \<^verbatim>\<open>get_counsellor_analysis\<close>, on the same argument.
\<close>

lemma counsellor_analysis_accepts_non_manager:
  "get_counsellor_analysis demo_service (Other_obj (Some ''aud-1'')) demo_world =
     (Inr \<lparr>success = True, message = ''Succesfully retrieved counsellors data'',
           total_counsellors = 4, total_calls_made = 4,
           counsellors = [''c-1'', ''c-2'', ''c-3'', ''c-4'']\<rparr>,
      \<lparr>repo_calls = [Get_counsellor_data ''aud-1'', Get_counsellors ''aud-1''],
       cookies = [], entropy = counting 0\<rparr>)"
  by (simp add: get_counsellor_analysis_def demo_defs prog_defs)

subsection \<open>C3: the two counts of the counsellor analysis\<close>

text \<open>
  C3: in the response of every successful \<^verbatim>\<open>get_counsellor_analysis\<close>,
  \<^verbatim>\<open>total_calls_made\<close> is the value under the key \<^verbatim>\<open>total_counsellors\<close> of the dictionary
  the repository returned for the caller's id, and so it equals \<^verbatim>\<open>total_counsellors\<close>.
\<close>

theorem counsellor_analysis_calls_made:
  assumes "get_counsellor_analysis self manager w = (Inr r, w')"
  shows "total_calls_made r = total_counsellors r \<and>
         (\<exists>mid d. attr_id manager w = (Inr mid, w) \<and>
            get_counsellor_data (repo self) mid = Returned (Some d) \<and>
            map_of d ''total_counsellors'' = Some (total_calls_made r))"
  using assms
  by (cases manager rule: attr_id.cases)
     (auto simp: get_counsellor_analysis_def prog_defs
          split: outcome.splits option.splits list.splits if_splits)

theorem counsellor_analysis_calls_made_witness:
  "get_counsellor_analysis demo_service (Manager_obj demo_manager) demo_world =
     (Inr \<lparr>success = True, message = ''Succesfully retrieved counsellors data'',
           total_counsellors = 4, total_calls_made = 4,
           counsellors = [''c-1'', ''c-2'', ''c-3'', ''c-4'']\<rparr>,
      \<lparr>repo_calls = [Get_counsellor_data ''m-1'', Get_counsellors ''m-1''],
       cookies = [], entropy = counting 0\<rparr>) \<and>
   get_counsellor_data (repo demo_service) ''m-1'' =
     Returned (Some [(''total_counsellors'', 4), (''total_calls_made'', 30)])"
proof -
  have run: "get_counsellor_analysis demo_service (Manager_obj demo_manager) demo_world =
     (Inr \<lparr>success = True, message = ''Succesfully retrieved counsellors data'',
           total_counsellors = 4, total_calls_made = 4,
           counsellors = [''c-1'', ''c-2'', ''c-3'', ''c-4'']\<rparr>,
      \<lparr>repo_calls = [Get_counsellor_data ''m-1'', Get_counsellors ''m-1''],
       cookies = [], entropy = counting 0\<rparr>)"
    by (simp add: get_counsellor_analysis_def demo_defs prog_defs)
  from counsellor_analysis_calls_made [OF run] run show ?thesis
    by (simp add: demo_defs)
qed

subsection \<open>C4: the manager dashboard is all or nothing\<close>

text \<open>
  C4: for every Manager, if one of the five fetches (leads, audited calls, flagged calls,
  latest flagged audit, last seven days) returns \<^verbatim>\<open>None\<close>, \<^verbatim>\<open>get_manager_analytics\<close> fails
  with InternalError (500) and returns no payload; if all five return a value, it succeeds
  and the response carries exactly those five values.
\<close>

theorem manager_analytics_all_or_nothing:
  "((get_all_leads (repo self) (mgr_id m) = Returned None \<or>
     get_all_audit (repo self) (mgr_id m) = Returned None \<or>
     get_all_flagged_call (repo self) (mgr_id m) = Returned None \<or>
     get_all_latest_flagged_audit (repo self) (mgr_id m) = Returned None \<or>
     get_last_7_days_audited_calls (repo self) (mgr_id m) = Returned None) \<longrightarrow>
      (\<exists>d. fst (get_manager_analytics self (Manager_obj m) w) =
             Inl (HTTPException HTTP_500_INTERNAL_SERVER_ERROR d))) \<and>
   (\<forall>l a f la d7.
      get_all_leads (repo self) (mgr_id m) = Returned (Some l) \<and>
      get_all_audit (repo self) (mgr_id m) = Returned (Some a) \<and>
      get_all_flagged_call (repo self) (mgr_id m) = Returned (Some f) \<and>
      get_all_latest_flagged_audit (repo self) (mgr_id m) = Returned (Some la) \<and>
      get_last_7_days_audited_calls (repo self) (mgr_id m) = Returned (Some d7) \<longrightarrow>
      fst (get_manager_analytics self (Manager_obj m) w) =
        Inr \<lparr>success = True, message = ''Succesfully analyzed audits for manager'',
             total_assigned_leads = l, total_audited_calls = a, flagged_calls = f,
             latest_flagged_audit = la, last_7_days_data = d7\<rparr>)"
  by (auto simp: get_manager_analytics_def prog_defs
          split: outcome.splits option.splits)

theorem manager_analytics_all_or_nothing_witness:
  "fst (get_manager_analytics demo_service (Manager_obj demo_manager) demo_world) =
     Inr \<lparr>success = True, message = ''Succesfully analyzed audits for manager'',
          total_assigned_leads = 12, total_audited_calls = 7, flagged_calls = 2,
          latest_flagged_audit = [''audit-9''], last_7_days_data = [''mon:3'', ''tue:4'']\<rparr> \<and>
   (\<exists>d. fst (get_manager_analytics demo_service
               (Manager_obj (demo_manager\<lparr>mgr_id := ''m-2''\<rparr>)) demo_world) =
          Inl (HTTPException HTTP_500_INTERNAL_SERVER_ERROR d))"
  using manager_analytics_all_or_nothing [of demo_service demo_manager demo_world]
    manager_analytics_all_or_nothing [of demo_service "demo_manager\<lparr>mgr_id := ''m-2''\<rparr>"
      demo_world]
  by (simp add: demo_service_def demo_repo_def demo_manager_def)

subsection \<open>C5: no flagged audits is not a failed fetch\<close>

text \<open>
  C5: when the repository returns the empty list, \<^verbatim>\<open>get_flagged_audits\<close> succeeds with
  \<^verbatim>\<open>flagged_audits = []\<close>; when it returns \<^verbatim>\<open>None\<close>, the call fails with InternalError
  (500); the two outcomes differ.
\<close>

theorem flagged_audits_empty_or_failed:
  "(get_all_latest_flagged_audit (repo self) (mgr_id m) = Returned (Some []) \<longrightarrow>
      fst (get_flagged_audits self (Manager_obj m) w) =
        Inr \<lparr>success = True, message = ''Succesfully retrieved the flagged audits'',
             flagged_audits = []\<rparr>) \<and>
   (get_all_latest_flagged_audit (repo self) (mgr_id m) = Returned None \<longrightarrow>
      fst (get_flagged_audits self (Manager_obj m) w) =
        Inl (HTTPException HTTP_500_INTERNAL_SERVER_ERROR
               ''Internal server error occurred while fetching flagged audits.''))"
  by (simp add: get_flagged_audits_def prog_defs)

theorem flagged_audits_empty_or_failed_witness:
  "fst (get_flagged_audits demo_service (Manager_obj (demo_manager\<lparr>mgr_id := ''m-2''\<rparr>))
          demo_world) =
     Inr \<lparr>success = True, message = ''Succesfully retrieved the flagged audits'',
          flagged_audits = []\<rparr> \<and>
   fst (get_flagged_audits demo_service (Manager_obj (demo_manager\<lparr>mgr_id := ''m-3''\<rparr>))
          demo_world) =
     Inl (HTTPException HTTP_500_INTERNAL_SERVER_ERROR
            ''Internal server error occurred while fetching flagged audits.'')"
  using flagged_audits_empty_or_failed [of demo_service "demo_manager\<lparr>mgr_id := ''m-2''\<rparr>"
      demo_world]
    flagged_audits_empty_or_failed [of demo_service "demo_manager\<lparr>mgr_id := ''m-3''\<rparr>"
      demo_world]
  by (simp add: demo_service_def demo_repo_def demo_manager_def)

subsection \<open>C6: the strong password generator\<close>

text \<open>
  C6: for every length \<open>L \<ge> 4\<close> (and every state of the random generator) the password
  generator returns a string of length exactly \<open>L\<close> with at least one lowercase letter, one
  uppercase letter, one digit and one punctuation character; for every \<open>L < 4\<close> it raises
  a ValueError.
\<close>

theorem generate_strong_password_spec:
  "(4 \<le> len \<longrightarrow>
      (\<exists>pw w'. generate_strong_password len w = (Inr pw, w') \<and> int (length pw) = len \<and>
         (\<exists>c \<in> set pw. c \<in> set ascii_lowercase) \<and>
         (\<exists>c \<in> set pw. c \<in> set ascii_uppercase) \<and>
         (\<exists>c \<in> set pw. c \<in> set digits) \<and>
         (\<exists>c \<in> set pw. c \<in> set punctuation))) \<and>
   (len < 4 \<longrightarrow>
      generate_strong_password len w =
        (Inl (ValueError
           ''Password length should be at least 4 to include all character types.''), w))"
proof (intro conjI impI)
  assume "4 \<le> len"
  then show "\<exists>pw w'. generate_strong_password len w = (Inr pw, w') \<and> int (length pw) = len \<and>
         (\<exists>c \<in> set pw. c \<in> set ascii_lowercase) \<and>
         (\<exists>c \<in> set pw. c \<in> set ascii_uppercase) \<and>
         (\<exists>c \<in> set pw. c \<in> set digits) \<and>
         (\<exists>c \<in> set pw. c \<in> set punctuation)"
    by (rule generate_strong_password_returns)
next
  assume "len < 4"
  then show "generate_strong_password len w =
        (Inl (ValueError
           ''Password length should be at least 4 to include all character types.''), w)"
    by (simp add: generate_strong_password_def raise_def)
qed

theorem generate_strong_password_spec_witness:
  "(\<exists>pw w'. generate_strong_password 10 demo_world = (Inr pw, w') \<and> int (length pw) = 10 \<and>
         (\<exists>c \<in> set pw. c \<in> set ascii_lowercase) \<and>
         (\<exists>c \<in> set pw. c \<in> set ascii_uppercase) \<and>
         (\<exists>c \<in> set pw. c \<in> set digits) \<and>
         (\<exists>c \<in> set pw. c \<in> set punctuation)) \<and>
   generate_strong_password 3 demo_world =
     (Inl (ValueError
        ''Password length should be at least 4 to include all character types.''), demo_world)"
  using generate_strong_password_spec [of 10 demo_world]
    generate_strong_password_spec [of 3 demo_world]
  by simp

subsection \<open>C7: login, not found before unauthorized\<close>

text \<open>
  C7: a login for which the repository finds no manager with the email fails with
  NotFound (404), whatever the password; a login for which it finds one whose stored hash
  the password does not verify against fails with Unauthorized (401). A call fails with
  at most one of the two: a 404 means that no manager was found, a 401 that one was found
  and the password did not verify; the lookup is the only repository call in both.
\<close>

theorem login_not_found_before_unauthorized:
  "(get_manager (repo self) email = Returned None \<longrightarrow>
      login_manager self email passwd w =
        (Inl (HTTPException HTTP_404_NOT_FOUND ''No manager found with given email''),
         w\<lparr>repo_calls := repo_calls w @ [Get_manager email]\<rparr>)) \<and>
   (\<forall>m. get_manager (repo self) email = Returned (Some m) \<and>
        verify (pwd_context self) passwd (mgr_password m) = Returned False \<longrightarrow>
      login_manager self email passwd w =
        (Inl (HTTPException HTTP_401_UNAUTHORIZED ''Password not matched''),
         w\<lparr>repo_calls := repo_calls w @ [Get_manager email]\<rparr>)) \<and>
   (\<forall>d w'. login_manager self email passwd w = (Inl (HTTPException HTTP_404_NOT_FOUND d), w') \<longrightarrow>
      get_manager (repo self) email = Returned None) \<and>
   (\<forall>d w'. login_manager self email passwd w = (Inl (HTTPException HTTP_401_UNAUTHORIZED d), w') \<longrightarrow>
      (\<exists>m. get_manager (repo self) email = Returned (Some m) \<and>
           verify (pwd_context self) passwd (mgr_password m) = Returned False))"
  by (auto simp: login_manager_def prog_defs status_defs
          split: outcome.splits option.splits if_splits)

theorem login_not_found_before_unauthorized_witness:
  "login_manager demo_service ''nobody@example.com'' ''s3cret'' demo_world =
     (Inl (HTTPException HTTP_404_NOT_FOUND ''No manager found with given email''),
      demo_world\<lparr>repo_calls := repo_calls demo_world @ [Get_manager ''nobody@example.com'']\<rparr>) \<and>
   login_manager demo_service ''asha@example.com'' ''guess'' demo_world =
     (Inl (HTTPException HTTP_401_UNAUTHORIZED ''Password not matched''),
      demo_world\<lparr>repo_calls := repo_calls demo_world @ [Get_manager ''asha@example.com'']\<rparr>)"
  using login_not_found_before_unauthorized
      [of demo_service "''nobody@example.com''" "''s3cret''" demo_world]
    login_not_found_before_unauthorized
      [of demo_service "''asha@example.com''" "''guess''" demo_world]
  by (simp add: demo_service_def demo_repo_def demo_manager_def)

subsection \<open>C8: a successful login\<close>

text \<open>
  C8: when the email matches a stored manager, the password verifies and both tokens are
  issued (each a non-empty string), \<^verbatim>\<open>login_manager\<close> sets exactly two cookies, named
  \<^verbatim>\<open>token\<close> and \<^verbatim>\<open>refresh_token\<close>, both http-only and same-site \<^verbatim>\<open>lax\<close>, carrying the two
  tokens, with max-ages of one day and seven days, and returns a user view made of the
  manager's id, name and email and the role \<^verbatim>\<open>manager\<close>: the stored hash is not in it.
\<close>

theorem login_success_cookies_and_user:
  assumes "get_manager (repo self) email = Returned (Some m)"
    and "verify (pwd_context self) passwd (mgr_password m) = Returned True"
    and "create_jwt_token (jwt_util self)
           [(''id'', mgr_id m), (''name'', mgr_name m), (''email'', mgr_email m),
            (''role'', ''manager'')] = Returned (Some token)"
    and "token \<noteq> []"
    and "create_refresh_token (jwt_util self) [(''id'', mgr_id m)] = Returned (Some refresh_token)"
    and "refresh_token \<noteq> []"
  shows "login_manager self email passwd w =
     (Inr \<lparr>success = True, message = ''Manager logged in succesfully.'',
           user = \<lparr>user_id = mgr_id m, user_name = mgr_name m, user_email = mgr_email m,
                   user_role = ''manager''\<rparr>\<rparr>,
      w\<lparr>repo_calls := repo_calls w @ [Get_manager email],
        cookies := cookies w @
          [\<lparr>key = ''token'', val = token, httponly = True, secure = False,
            samesite = ''lax'', max_age = 86400\<rparr>,
           \<lparr>key = ''refresh_token'', val = refresh_token, httponly = True, secure = True,
            samesite = ''lax'', max_age = 604800\<rparr>]\<rparr>)"
  using assms by (simp add: login_manager_def prog_defs)

theorem login_success_cookies_and_user_witness:
  "login_manager demo_service ''asha@example.com'' ''s3cret'' demo_world =
     (Inr \<lparr>success = True, message = ''Manager logged in succesfully.'',
           user = \<lparr>user_id = ''m-1'', user_name = ''Asha'', user_email = ''asha@example.com'',
                   user_role = ''manager''\<rparr>\<rparr>,
      \<lparr>repo_calls = [Get_manager ''asha@example.com''],
       cookies =
          [\<lparr>key = ''token'', val = ''session-jwt'', httponly = True, secure = False,
            samesite = ''lax'', max_age = 86400\<rparr>,
           \<lparr>key = ''refresh_token'', val = ''refresh-jwt'', httponly = True, secure = True,
            samesite = ''lax'', max_age = 604800\<rparr>],
       entropy = counting 0\<rparr>)"
  using login_success_cookies_and_user
      [of demo_service "''asha@example.com''" demo_manager "''s3cret''" "''session-jwt''"
          "''refresh-jwt''" demo_world]
  by (simp add: demo_defs)

subsection \<open>C9: a counsellor needs an auditor id\<close>

text \<open>
  C9: \<^verbatim>\<open>add_new_user\<close> with role \<^verbatim>\<open>counsellor\<close> and the empty string as \<^verbatim>\<open>auditor_id\<close>
  fails with status 500, and the world is as it was before: no repository method has been
  invoked.
\<close>

theorem counsellor_without_auditor_id:
  "add_new_user self ''counsellor'' name email phone [] manager_id w =
     (Inl (HTTPException HTTP_500_INTERNAL_SERVER_ERROR
             ''Auditor ID needed for creating counsellor''), w)"
  by (simp add: add_new_user_def create_new_counsellor_def prog_defs)

subsection \<open>C10: a failed login sets no cookie\<close>

text \<open>
  C10: when \<^verbatim>\<open>login_manager\<close> fails, for whatever reason, the cookies of the response are
  those it had before the call; when it succeeds, the manager was found, the password
  verified, both tokens were issued non-empty, and exactly the two cookies were added.
\<close>

theorem login_failure_sets_no_cookie:
  "(\<forall>e w'. login_manager self email passwd w = (Inl e, w') \<longrightarrow> cookies w' = cookies w) \<and>
   (\<forall>r w'. login_manager self email passwd w = (Inr r, w') \<longrightarrow>
      (\<exists>m token refresh_token.
         get_manager (repo self) email = Returned (Some m) \<and>
         verify (pwd_context self) passwd (mgr_password m) = Returned True \<and>
         create_jwt_token (jwt_util self)
           [(''id'', mgr_id m), (''name'', mgr_name m), (''email'', mgr_email m),
            (''role'', ''manager'')] = Returned (Some token) \<and> token \<noteq> [] \<and>
         create_refresh_token (jwt_util self) [(''id'', mgr_id m)] =
           Returned (Some refresh_token) \<and> refresh_token \<noteq> [] \<and>
         map key (cookies w') = map key (cookies w) @ [''token'', ''refresh_token'']))"
  by (auto simp: login_manager_def prog_defs
          split: outcome.splits option.splits if_splits)

theorem login_failure_sets_no_cookie_witness:
  "login_manager demo_service ''asha@example.com'' ''guess'' demo_world =
     (Inl (HTTPException HTTP_401_UNAUTHORIZED ''Password not matched''),
      \<lparr>repo_calls = [Get_manager ''asha@example.com''], cookies = [],
       entropy = counting 0\<rparr>) \<and>
   cookies \<lparr>repo_calls = [Get_manager ''asha@example.com''], cookies = [],
       entropy = counting 0\<rparr> = cookies demo_world"
proof -
  have run: "login_manager demo_service ''asha@example.com'' ''guess'' demo_world =
     (Inl (HTTPException HTTP_401_UNAUTHORIZED ''Password not matched''),
      \<lparr>repo_calls = [Get_manager ''asha@example.com''], cookies = [],
       entropy = counting 0\<rparr>)"
    by (simp add: login_manager_def demo_defs prog_defs)
  from login_failure_sets_no_cookie [of demo_service "''asha@example.com''" "''guess''" demo_world]
    run
  show ?thesis by blast
qed

end
